theory Spec2Isabelle
  imports Complex_Main
begin

section \<open>JavaScript numbers\<close>

text \<open>
  Prices, line subtotals, tax, shipping and totals are JavaScript \<^verbatim>\<open>Number\<close>s, that is
  IEEE 754 binary64 values. A finite value is carried by the rational it denotes; every
  arithmetic operation computes the exact rational result and rounds it to the nearest
  binary64 value, ties to the even significand (53 bits, least exponent \<open>-1074\<close>, overflow
  to infinity from \<open>2 ^ 1024\<close> on). The sign of zero is not represented: no operation of the
  modelled code distinguishes \<open>-0\<close> from \<open>0\<close>.

  Stock counts and quantities are integer-valued \<^verbatim>\<open>Number\<close>s (the schemas validate them with
  \<^verbatim>\<open>Number.isInteger\<close>); they are modelled by \<open>int\<close>, which agrees with binary64 below
  \<open>2 ^ 53\<close>.
\<close>

datatype number = Num rat | PosInf | NegInf | NaN

fun bits :: "nat \<Rightarrow> nat" where
  "bits n = (if n = 0 then 0 else Suc (bits (n div 2)))"

declare bits.simps [simp del]

definition ilog2 :: "rat \<Rightarrow> int" where
  \<comment> \<open>\<open>\<lfloor>log\<^sub>2 x\<rfloor>\<close> for \<open>0 < x\<close>\<close>
  "ilog2 x = (if 1 \<le> x then int (bits (nat \<lfloor>x\<rfloor>)) - 1
              else - int (bits (nat (\<lceil>1 / x\<rceil> - 1))))"

definition pow2 :: "int \<Rightarrow> rat" where
  "pow2 e = (if 0 \<le> e then 2 ^ nat e else 1 / 2 ^ nat (- e))"

definition round_half_even :: "rat \<Rightarrow> int" where
  "round_half_even y =
     (let f = \<lfloor>y\<rfloor>; d = y - of_int f
      in if d < 1 / 2 then f else if 1 / 2 < d then f + 1
         else if even f then f else f + 1)"

definition round_double :: "rat \<Rightarrow> number" where
  "round_double x =
     (if x = 0 then Num 0
      else let a = \<bar>x\<bar>;
               e = max (ilog2 a - 52) (- 1074);
               m = round_half_even (a / pow2 e);
               v = of_int m * pow2 e
           in if pow2 1024 \<le> v then (if 0 < x then PosInf else NegInf)
              else Num (if 0 < x then v else - v))"

text \<open>\<^verbatim>\<open>a + b\<close>\<close>

fun jadd :: "number \<Rightarrow> number \<Rightarrow> number" where
  "jadd (Num a) (Num b) = round_double (a + b)"
| "jadd NaN _ = NaN"
| "jadd _ NaN = NaN"
| "jadd PosInf NegInf = NaN"
| "jadd NegInf PosInf = NaN"
| "jadd PosInf _ = PosInf"
| "jadd _ PosInf = PosInf"
| "jadd NegInf _ = NegInf"
| "jadd _ NegInf = NegInf"

text \<open>\<^verbatim>\<open>a * b\<close>\<close>

definition inf_times :: "bool \<Rightarrow> rat \<Rightarrow> number" where
  \<comment> \<open>an infinity (positive iff the flag is set) times a finite value\<close>
  "inf_times pos b =
     (if b = 0 then NaN else if (0 < b) = pos then PosInf else NegInf)"

fun jmul :: "number \<Rightarrow> number \<Rightarrow> number" where
  "jmul (Num a) (Num b) = round_double (a * b)"
| "jmul NaN _ = NaN"
| "jmul _ NaN = NaN"
| "jmul PosInf (Num b) = inf_times True b"
| "jmul NegInf (Num b) = inf_times False b"
| "jmul (Num a) PosInf = inf_times True a"
| "jmul (Num a) NegInf = inf_times False a"
| "jmul PosInf PosInf = PosInf"
| "jmul NegInf NegInf = PosInf"
| "jmul PosInf NegInf = NegInf"
| "jmul NegInf PosInf = NegInf"

text \<open>\<^verbatim>\<open>a > b\<close>\<close>

fun jgt :: "number \<Rightarrow> number \<Rightarrow> bool" where
  "jgt (Num a) (Num b) = (b < a)"
| "jgt NaN _ = False"
| "jgt _ NaN = False"
| "jgt _ PosInf = False"
| "jgt PosInf _ = True"
| "jgt NegInf _ = False"
| "jgt _ NegInf = True"

definition num_of_int :: "int \<Rightarrow> number" where
  \<comment> \<open>an integer quantity used as an operand of \<^verbatim>\<open>*\<close>\<close>
  "num_of_int i = round_double (of_int i)"

section \<open>Documents\<close>

text \<open>
  Object ids are natural numbers. A record field carries the name of the schema path; where
  two schemas share a path name the field is prefixed (\<open>p_\<close> product, \<open>ci_\<close> cart item,
  \<open>c_\<close> cart, \<open>oi_\<close> order item, \<open>o_\<close> order).
\<close>

type_synonym oid = nat

record product =
  p_name :: string
  p_price :: number
  p_stock :: int
  p_isActive :: bool

record cart_item =
  ci_product :: oid
  ci_quantity :: int
  ci_price :: number

record cart =
  c_items :: "cart_item list"
  c_totalItems :: int
  c_totalAmount :: number

text \<open>
  A cart read with \<^verbatim>\<open>Cart.findByUser\<close> has its items populated: every item comes with the
  product document its reference resolved to when the cart was read, or with \<open>None\<close> when no
  product has that id.
\<close>

type_synonym populated_item = "cart_item \<times> product option"

record loaded_cart =
  lc_items :: "populated_item list"
  lc_totalItems :: int
  lc_totalAmount :: number

record order_item =
  oi_product :: oid
  oi_name :: string
  oi_price :: number
  oi_quantity :: int
  oi_subtotal :: number

record shipping_address =
  fullName :: string
  addressLine1 :: string
  addressLine2 :: string
  city :: string
  state :: string
  zipCode :: string
  country :: string
  phone :: string

datatype payment_status = PayPending | PayCompleted | PayFailed | PayRefunded

datatype order_status = Pending | Confirmed | Processing | Shipped | Delivered | Cancelled

text \<open>
  \<open>orderNumber\<close> holds the two numeric parts of \<^verbatim>\<open>ORD-<last 8 digits of Date.now()>-<random>\<close>.
  Dates are millisecond timestamps. The notes are a JavaScript string that the controller
  trims; such a string is the list of its UTF-16 code units.
\<close>

record order =
  orderNumber :: "(nat \<times> nat) option"
  o_user :: oid
  o_items :: "order_item list"
  o_totalItems :: int
  subtotal :: number
  tax :: number
  shipping :: number
  o_totalAmount :: number
  paymentMethod :: string
  paymentStatus :: payment_status
  orderStatus :: order_status
  shippingAddress :: shipping_address
  o_notes :: "nat list option"
  estimatedDelivery :: "nat option"
  deliveredAt :: "nat option"
  cancelledAt :: "nat option"
  cancellationReason :: "string option"

text \<open>
  The store: products by id, carts by the id of their user (the schema makes \<open>user\<close>
  unique), and the orders in creation order, an order's id being its position (orders are
  never deleted). The documents of the store are taken to satisfy their schemas, as every
  write of the object mapper validates the document. A write is modelled with the
  validators that the change made by the handler can violate.
\<close>

record db =
  products :: "oid \<Rightarrow> product option"
  carts :: "oid \<Rightarrow> cart option"
  orders :: "order list"

text \<open>The clock and the random source read by the hooks: \<^verbatim>\<open>Date.now()\<close> and
  \<^verbatim>\<open>Math.floor(Math.random() * 1000)\<close>.\<close>

record env =
  now :: nat
  random :: nat

section \<open>Errors\<close>

text \<open>The messages of the errors, with the values their templates interpolate.\<close>

datatype message =
    StatusRequired
  | NotFound string
  | CancelAccessDenied
  | CannotBeCancelled
  | PaymentMethodRequired
  | ShippingAddressRequired
  | ShippingFieldRequired string
  | CartEmpty
  | NoLongerAvailable string
  | InsufficientStock string int
  | ProductIdRequired
  | QuantityNotPositive
  | OnlyAvailable int
  | CannotAdd int int
  | OrderValidationFailed
  | CartValidationFailed
  | StockValueRequired
  | InvalidOperation
  | ProductValidationFailed

text \<open>\<^verbatim>\<open>new AppError(message, statusCode, type)\<close>\<close>

datatype app_error = AppError message nat string

definition createValidationError :: "message \<Rightarrow> app_error" where
  "createValidationError m = AppError m 400 ''ValidationError''"

definition createNotFoundError :: "string \<Rightarrow> app_error" where
  "createNotFoundError resource = AppError (NotFound resource) 404 ''NotFoundError''"

section \<open>Cart model\<close>

text \<open>\<^verbatim>\<open>Array.prototype.findIndex\<close>, with \<open>None\<close> for \<open>-1\<close>.\<close>

fun findIndex :: "('a \<Rightarrow> bool) \<Rightarrow> 'a list \<Rightarrow> nat option" where
  "findIndex P [] = None"
| "findIndex P (x # xs) = (if P x then Some 0 else map_option Suc (findIndex P xs))"

definition total_quantity :: "cart_item list \<Rightarrow> int" where
  "total_quantity its = foldl (\<lambda>total item. total + ci_quantity item) 0 its"

definition total_amount :: "cart_item list \<Rightarrow> number" where
  "total_amount its =
     foldl (\<lambda>total item. jadd total (jmul (ci_price item) (num_of_int (ci_quantity item))))
       (Num 0) its"

definition cart_calculateTotals :: "cart \<Rightarrow> cart" where
  "cart_calculateTotals c =
     c\<lparr>c_totalItems := total_quantity (c_items c), c_totalAmount := total_amount (c_items c)\<rparr>"

text \<open>\<^verbatim>\<open>addItem(productData, quantity)\<close>; the product document is its id and its fields.\<close>

definition addItem :: "cart \<Rightarrow> oid \<Rightarrow> product \<Rightarrow> int \<Rightarrow> cart" where
  "addItem c pid productData quantity =
     (case findIndex (\<lambda>item. ci_product item = pid) (c_items c) of
        Some i \<Rightarrow>
          c\<lparr>c_items := (c_items c)
                [i := (c_items c ! i)\<lparr>ci_quantity := ci_quantity (c_items c ! i) + quantity\<rparr>]\<rparr>
      | None \<Rightarrow>
          c\<lparr>c_items := c_items c @
                [\<lparr>ci_product = pid, ci_quantity = quantity, ci_price = p_price productData\<rparr>]\<rparr>)"

definition updateItemQuantity :: "cart \<Rightarrow> oid \<Rightarrow> int \<Rightarrow> cart \<times> bool" where
  "updateItemQuantity c pid quantity =
     (case findIndex (\<lambda>item. ci_product item = pid) (c_items c) of
        Some i \<Rightarrow>
          (if quantity \<le> 0
           then c\<lparr>c_items := take i (c_items c) @ drop (Suc i) (c_items c)\<rparr>
           else c\<lparr>c_items := (c_items c)[i := (c_items c ! i)\<lparr>ci_quantity := quantity\<rparr>]\<rparr>,
           True)
      | None \<Rightarrow> (c, False))"

definition removeItem :: "cart \<Rightarrow> oid \<Rightarrow> cart \<times> bool" where
  "removeItem c pid =
     (let kept = filter (\<lambda>item. ci_product item \<noteq> pid) (c_items c)
      in (c\<lparr>c_items := kept\<rparr>, length kept < length (c_items c)))"

definition getItem :: "cart \<Rightarrow> oid \<Rightarrow> cart_item option" where
  "getItem c pid = find (\<lambda>item. ci_product item = pid) (c_items c)"

definition cart_save :: "db \<Rightarrow> oid \<Rightarrow> cart \<Rightarrow> db \<times> cart" where
  \<comment> \<open>the pre-save hook recomputes the totals, then the document is written\<close>
  "cart_save d uid c =
     (let saved = cart_calculateTotals c in (d\<lparr>carts := (carts d)(uid \<mapsto> saved)\<rparr>, saved))"

text \<open>\<^verbatim>\<open>Cart.create({ user: userId, items: [] })\<close>\<close>

definition cart_create :: "db \<Rightarrow> oid \<Rightarrow> db \<times> cart" where
  "cart_create d uid = cart_save d uid \<lparr>c_items = [], c_totalItems = 0, c_totalAmount = Num 0\<rparr>"


definition populate :: "db \<Rightarrow> cart \<Rightarrow> loaded_cart" where
  "populate d c =
     \<lparr>lc_items = map (\<lambda>item. (item, products d (ci_product item))) (c_items c),
      lc_totalItems = c_totalItems c, lc_totalAmount = c_totalAmount c\<rparr>"

definition cart_findByUser :: "db \<Rightarrow> oid \<Rightarrow> loaded_cart option" where
  "cart_findByUser d uid = map_option (populate d) (carts d uid)"

definition isEmpty :: "loaded_cart \<Rightarrow> bool" where
  "isEmpty lc = (length (lc_items lc) = 0)"

definition loaded_calculateTotals :: "loaded_cart \<Rightarrow> loaded_cart" where
  "loaded_calculateTotals lc =
     lc\<lparr>lc_totalItems := total_quantity (map fst (lc_items lc)),
        lc_totalAmount := total_amount (map fst (lc_items lc))\<rparr>"

definition clearCart :: "loaded_cart \<Rightarrow> loaded_cart" where
  "clearCart lc = lc\<lparr>lc_items := [], lc_totalItems := 0, lc_totalAmount := Num 0\<rparr>"

text \<open>Saving a populated cart stores the references of its items.\<close>

definition loaded_save :: "db \<Rightarrow> oid \<Rightarrow> loaded_cart \<Rightarrow> db \<times> loaded_cart" where
  "loaded_save d uid lc =
     (let saved = loaded_calculateTotals lc
      in (d\<lparr>carts := (carts d)(uid \<mapsto>
               \<lparr>c_items = map fst (lc_items saved), c_totalItems = lc_totalItems saved,
                c_totalAmount = lc_totalAmount saved\<rparr>)\<rparr>,
          saved))"

section \<open>Cart controller\<close>

text \<open>The filter of \<^verbatim>\<open>getCart\<close>:
  \<^verbatim>\<open>item.product && item.product.isActive && item.product.stock > 0\<close>.\<close>

fun is_active_item :: "populated_item \<Rightarrow> bool" where
  "is_active_item (item, None) = False"
| "is_active_item (item, Some p) = (p_isActive p \<and> 0 < p_stock p)"

definition getCart :: "db \<Rightarrow> oid \<Rightarrow> db \<times> loaded_cart" where
  "getCart d uid =
     (let (d1, cart) =
            (case cart_findByUser d uid of
               Some lc \<Rightarrow> (d, lc)
             | None \<Rightarrow> (let (d', c) = cart_create d uid in (d', populate d' c)));
          activeItems = filter is_active_item (lc_items cart)
      in if length activeItems \<noteq> length (lc_items cart)
         then loaded_save d1 uid (loaded_calculateTotals (cart\<lparr>lc_items := activeItems\<rparr>))
         else (d1, cart))"



section \<open>Order model\<close>


definition calculateTotals :: "order \<Rightarrow> order" where
  "calculateTotals ord =
     (let sub = foldl (\<lambda>total item. jadd total (oi_subtotal item)) (Num 0) (o_items ord);
          cnt = foldl (\<lambda>total item. total + oi_quantity item) 0 (o_items ord)
      in ord\<lparr>subtotal := sub,
              o_totalItems := cnt,
              o_totalAmount := jadd (jadd sub (tax ord)) (shipping ord),
              o_items := map (\<lambda>item. item\<lparr>oi_subtotal :=
                                  jmul (oi_price item) (num_of_int (oi_quantity item))\<rparr>)
                           (o_items ord)\<rparr>)"

text \<open>The pre-save hook; \<open>isNew\<close> holds on the save that creates the document.\<close>

definition order_pre_save :: "env \<Rightarrow> bool \<Rightarrow> order \<Rightarrow> order" where
  "order_pre_save e isNew ord =
     (let o1 = (if isNew \<and> orderNumber ord = None
                then ord\<lparr>orderNumber := Some (now e mod 10 ^ 8, random e)\<rparr> else ord);
          o2 = calculateTotals o1
      in if isNew \<and> estimatedDelivery o2 = None
         then o2\<lparr>estimatedDelivery := Some (now e + 7 * 24 * 60 * 60 * 1000)\<rparr> else o2)"

text \<open>\<^verbatim>\<open>Order.findById(id)\<close>\<close>

definition order_findById :: "db \<Rightarrow> oid \<Rightarrow> order option" where
  "order_findById d i = (if i < length (orders d) then Some (orders d ! i) else None)"

text \<open>\<^verbatim>\<open>this.save()\<close> of an order loaded as document \<open>i\<close>: the hook runs, then the document
  is written; the saved document is returned. The validation before the hook passes, as
  the stored document satisfies the schema and \<^verbatim>\<open>updateStatus\<close> assigns values that the
  schema admits.\<close>

definition order_save :: "env \<Rightarrow> db \<Rightarrow> oid \<Rightarrow> order \<Rightarrow> db \<times> order" where
  "order_save e d i ord =
     (let saved = order_pre_save e False ord
      in (d\<lparr>orders := (orders d)[i := saved]\<rparr>, saved))"

definition updateStatus :: "env \<Rightarrow> db \<Rightarrow> oid \<Rightarrow> order \<Rightarrow> order_status \<Rightarrow> string option
    \<Rightarrow> db \<times> order" where
  "updateStatus e d i ord status reason =
     (let o1 = ord\<lparr>orderStatus := status\<rparr>;
          o2 = (if status = Delivered
                then o1\<lparr>deliveredAt := Some (now e), paymentStatus := PayCompleted\<rparr>
                else if status = Cancelled
                then o1\<lparr>cancelledAt := Some (now e), cancellationReason := reason\<rparr>
                else o1)
      in order_save e d i o2)"

section \<open>Product store\<close>

text \<open>\<^verbatim>\<open>Product.findByIdAndUpdate(id, { $inc: { stock: n } })\<close>: an unconditional increment of
  the stored count; nothing happens when no product has the id.\<close>

definition inc_stock :: "db \<Rightarrow> oid \<Rightarrow> int \<Rightarrow> db" where
  "inc_stock d i n =
     (case products d i of
        None \<Rightarrow> d
      | Some p \<Rightarrow> d\<lparr>products := (products d)(i \<mapsto> p\<lparr>p_stock := p_stock p + n\<rparr>)\<rparr>)"

section \<open>Order controller\<close>



text \<open>The body of the request that places an order; an absent string is the empty string,
  which \<^verbatim>\<open>!\<close> treats alike.\<close>

record place_body =
  body_paymentMethod :: string
  body_shippingAddress :: "shipping_address option"
  body_notes :: "nat list option"

definition requiredAddressFields :: "(string \<times> (shipping_address \<Rightarrow> string)) list" where
  "requiredAddressFields =
     [(''fullName'', fullName), (''addressLine1'', addressLine1), (''city'', city),
      (''state'', state), (''zipCode'', zipCode)]"

definition validate_body :: "place_body \<Rightarrow> app_error option" where
  "validate_body body =
     (if body_paymentMethod body = [] then Some (createValidationError PaymentMethodRequired)
      else case body_shippingAddress body of
             None \<Rightarrow> Some (createValidationError ShippingAddressRequired)
           | Some a \<Rightarrow>
               (case find (\<lambda>(field, get). get a = []) requiredAddressFields of
                  Some (field, get) \<Rightarrow> Some (createValidationError (ShippingFieldRequired field))
                | None \<Rightarrow> None))"

text \<open>The literal \<^verbatim>\<open>0.08\<close>.\<close>

definition tax_rate :: number where
  "tax_rate = round_double (8 / 100)"

text \<open>The loop over the items of the cart: it returns at the first item whose product is
  gone, inactive or short of stock, and otherwise appends the order item and adds its
  subtotal.\<close>

fun order_items_loop :: "populated_item list \<Rightarrow> order_item list \<Rightarrow> number
    \<Rightarrow> app_error + (order_item list \<times> number)" where
  "order_items_loop [] orderItems sub = Inr (orderItems, sub)"
| "order_items_loop ((cartItem, prd) # rest) orderItems sub =
     (case prd of
        None \<Rightarrow> Inl (AppError (NoLongerAvailable ''Unknown'') 400 ''ValidationError'')
      | Some p \<Rightarrow>
          if \<not> p_isActive p
          then Inl (AppError (NoLongerAvailable (if p_name p = [] then ''Unknown'' else p_name p))
                      400 ''ValidationError'')
          else if p_stock p < ci_quantity cartItem
          then Inl (AppError (InsufficientStock (p_name p) (p_stock p)) 400 ''StockError'')
          else
            (let orderItem =
                   \<lparr>oi_product = ci_product cartItem, oi_name = p_name p, oi_price = p_price p,
                    oi_quantity = ci_quantity cartItem,
                    oi_subtotal = jmul (p_price p) (num_of_int (ci_quantity cartItem))\<rparr>
             in order_items_loop rest (orderItems @ [orderItem])
                  (jadd sub (oi_subtotal orderItem))))"

text \<open>\<^verbatim>\<open>String.prototype.trim\<close> removes white space and line terminators from both ends:
  U+0009 to U+000D, U+0020, U+00A0, U+1680, U+2000 to U+200A, U+2028, U+2029, U+202F,
  U+205F, U+3000 and U+FEFF.\<close>

definition is_space :: "nat \<Rightarrow> bool" where
  "is_space u =
     (u \<in> set [0x09, 0x0A, 0x0B, 0x0C, 0x0D, 0x20, 0xA0, 0x1680, 0x2028, 0x2029, 0x202F,
                0x205F, 0x3000, 0xFEFF]
      \<or> (0x2000 \<le> u \<and> u \<le> 0x200A))"

definition trim :: "nat list \<Rightarrow> nat list" where
  "trim s = rev (dropWhile is_space (rev (dropWhile is_space s)))"

text \<open>The object \<^verbatim>\<open>orderData\<close> that the controller builds: these ten fields and no other.\<close>

record orderData =
  od_user :: oid
  od_items :: "order_item list"
  od_totalItems :: int
  od_subtotal :: number
  od_tax :: number
  od_shipping :: number
  od_totalAmount :: number
  od_paymentMethod :: string
  od_shippingAddress :: shipping_address
  od_notes :: "nat list option"

text \<open>From the cart that was read to the data of the order (no effect on the store).\<close>

definition order_data :: "loaded_cart option \<Rightarrow> oid \<Rightarrow> place_body \<Rightarrow> app_error + orderData" where
  "order_data cart userId body =
     (case cart of
        None \<Rightarrow> Inl (AppError CartEmpty 400 ''ValidationError'')
      | Some lc \<Rightarrow>
          if isEmpty lc then Inl (AppError CartEmpty 400 ''ValidationError'')
          else
            (case order_items_loop (lc_items lc) [] (Num 0) of
               Inl err \<Rightarrow> Inl err
             | Inr (orderItems, sub) \<Rightarrow>
                 (let tx = jmul sub tax_rate;
                      sh = (if jgt sub (Num 50) then Num 0 else Num 10);
                      total = jadd (jadd sub tx) sh
                  in Inr \<lparr>od_user = userId, od_items = orderItems,
                          od_totalItems = lc_totalItems lc, od_subtotal = sub, od_tax = tx,
                          od_shipping = sh, od_totalAmount = total,
                          od_paymentMethod = body_paymentMethod body,
                          od_shippingAddress = the (body_shippingAddress body),
                          od_notes = map_option trim (body_notes body)\<rparr>)))"

text \<open>
  \<^verbatim>\<open>Order.create(orderData)\<close>. The object mapper validates a new document before it runs
  the \<^verbatim>\<open>pre('save')\<close> hook. The schema makes \<open>orderNumber\<close> a required path without a
  default; \<^verbatim>\<open>orderData\<close> has no such field and only the hook would set one. So the
  validation fails for every \<^verbatim>\<open>orderData\<close>, the hook does not run and nothing is written;
  the error handler reports the validation error with status 400 and type
  \<^verbatim>\<open>ValidationError\<close>. Its message lists the paths that failed, \<open>orderNumber\<close> among them.
\<close>

definition order_create :: "env \<Rightarrow> db \<Rightarrow> orderData \<Rightarrow> app_error + db \<times> order" where
  "order_create e d orderData = Inl (AppError OrderValidationFailed 400 ''ValidationError'')"

text \<open>The loop that reduces the stock of every ordered product.\<close>

definition reduce_stock :: "db \<Rightarrow> order_item list \<Rightarrow> db" where
  "reduce_stock d its =
     foldl (\<lambda>d' item. inc_stock d' (oi_product item) (- oi_quantity item)) d its"

definition placeOrder :: "env \<Rightarrow> db \<Rightarrow> oid \<Rightarrow> place_body \<Rightarrow> db \<times> (app_error + order)" where
  "placeOrder e d userId body =
     (case validate_body body of
        Some err \<Rightarrow> (d, Inl err)
      | None \<Rightarrow>
          (let cart = cart_findByUser d userId
           in case order_data cart userId body of
                Inl err \<Rightarrow> (d, Inl err)
              | Inr orderData \<Rightarrow>
                  (case order_create e d orderData of
                     Inl err \<Rightarrow> (d, Inl err)
                   | Inr (d1, ord) \<Rightarrow>
                       (let d2 = reduce_stock d1 (od_items orderData);
                            (d3, cleared) = loaded_save d2 userId (clearCart (the cart))
                        in (d3, Inr ord)))))"

text \<open>\<^verbatim>\<open>updateOrderStatus\<close> (the route admits administrators only). The request's status is
  absent (\<open>None\<close>) or one of the six values of the schema's enumeration.\<close>

definition updateOrderStatus :: "env \<Rightarrow> db \<Rightarrow> oid \<Rightarrow> order_status option \<Rightarrow> string option
    \<Rightarrow> db \<times> (app_error + order)" where
  "updateOrderStatus e d i status reason =
     (case status of
        None \<Rightarrow> (d, Inl (createValidationError StatusRequired))
      | Some s \<Rightarrow>
          (case order_findById d i of
             None \<Rightarrow> (d, Inl (createNotFoundError ''Order''))
           | Some ord \<Rightarrow>
               (let (d', ord') = updateStatus e d i ord s reason in (d', Inr ord'))))"



section \<open>Product controller\<close>




section \<open>Requests in flight\<close>

text \<open>
  A handler runs without interruption from one \<^verbatim>\<open>await\<close> to the next; between two of its
  steps the steps of other requests may run. The states of a \<^verbatim>\<open>placeOrder\<close> request are
  its points of suspension: before the cart is read; with the cart read, before the
  order is created; with the order created and the stock of some items still to be
  reduced (a point that no request reaches, since the creation of the order fails); and
  finished, also by an error. A step is the code between two such points together with the
  database operation that ends it: the read of the cart with its products, the creation
  of the order, one \<^verbatim>\<open>findByIdAndUpdate\<close> per item, the save of the cleared cart. The
  final \<^verbatim>\<open>order.populate\<close> only reads and is left out.
\<close>

datatype place_state =
    PStart oid place_body
  | PLoaded oid place_body "loaded_cart option"
  | PReducing oid loaded_cart order "order_item list"
  | PDone "app_error + order"

fun place_step :: "env \<Rightarrow> db \<Rightarrow> place_state \<Rightarrow> db \<times> place_state" where
  "place_step e d (PStart userId body) =
     (case validate_body body of
        Some err \<Rightarrow> (d, PDone (Inl err))
      | None \<Rightarrow> (d, PLoaded userId body (cart_findByUser d userId)))"
| "place_step e d (PLoaded userId body cart) =
     (case order_data cart userId body of
        Inl err \<Rightarrow> (d, PDone (Inl err))
      | Inr orderData \<Rightarrow>
          (case order_create e d orderData of
             Inl err \<Rightarrow> (d, PDone (Inl err))
           | Inr (d1, ord) \<Rightarrow> (d1, PReducing userId (the cart) ord (od_items orderData))))"
| "place_step e d (PReducing userId cart ord (item # rest)) =
     (inc_stock d (oi_product item) (- oi_quantity item), PReducing userId cart ord rest)"
| "place_step e d (PReducing userId cart ord []) =
     (let (d3, cleared) = loaded_save d userId (clearCart cart) in (d3, PDone (Inr ord)))"
| "place_step e d (PDone r) = (d, PDone r)"

text \<open>The requests in flight take steps in the order of a schedule, which names the
  request that moves next by its position.\<close>

fun run_schedule :: "env \<Rightarrow> db \<times> place_state list \<Rightarrow> nat list \<Rightarrow> db \<times> place_state list" where
  "run_schedule e cfg [] = cfg"
| "run_schedule e (d, rs) (i # sched) =
     (if i < length rs
      then (let (d', r') = place_step e d (rs ! i) in run_schedule e (d', rs[i := r']) sched)
      else run_schedule e (d, rs) sched)"

fun succeeded :: "place_state \<Rightarrow> bool" where
  "succeeded (PDone (Inr ord)) = True"
| "succeeded _ = False"

text \<open>A request that has not created an order: it waits to read its cart or to create the
  order, or it has ended with an error.\<close>

fun without_order :: "place_state \<Rightarrow> bool" where
  "without_order (PStart userId body) = True"
| "without_order (PLoaded userId body cart) = True"
| "without_order (PReducing userId cart ord rest) = False"
| "without_order (PDone (Inl err)) = True"
| "without_order (PDone (Inr ord)) = False"

section \<open>Sequences of requests\<close>




section \<open>Predicates of the statements\<close>

text \<open>An item whose product exists, is active and has positive stock in the store.\<close>

definition in_stock_active :: "db \<Rightarrow> cart_item \<Rightarrow> bool" where
  "in_stock_active d item =
     (case products d (ci_product item) of
        None \<Rightarrow> False
      | Some p \<Rightarrow> p_isActive p \<and> 0 < p_stock p)"

text \<open>A cart line that the loop of \<^verbatim>\<open>placeOrder\<close> rejects.\<close>

definition line_fails :: "populated_item \<Rightarrow> bool" where
  "line_fails x =
     (case snd x of
        None \<Rightarrow> True
      | Some p \<Rightarrow> \<not> p_isActive p \<or> p_stock p < ci_quantity (fst x))"

text \<open>Unit price times quantity, and the sum of these over the lines from left to right,
  both in \<^verbatim>\<open>Number\<close> arithmetic.\<close>

definition line_total :: "order_item \<Rightarrow> number" where
  "line_total item = jmul (oi_price item) (num_of_int (oi_quantity item))"

definition sum_lines :: "order_item list \<Rightarrow> number" where
  "sum_lines its = foldl (\<lambda>total item. jadd total (line_total item)) (Num 0) its"


text \<open>The order item that the loop builds from a cart line and its product.\<close>

definition snapshot :: "cart_item \<Rightarrow> product \<Rightarrow> order_item" where
  "snapshot cartItem p =
     \<lparr>oi_product = ci_product cartItem, oi_name = p_name p, oi_price = p_price p,
      oi_quantity = ci_quantity cartItem,
      oi_subtotal = jmul (p_price p) (num_of_int (ci_quantity cartItem))\<rparr>"

text \<open>The rational that a finite \<^verbatim>\<open>Number\<close> denotes, and the exact sum of price times
  quantity over the lines of an order.\<close>

definition exact_value :: "number \<Rightarrow> rat" where
  "exact_value x = (case x of Num r \<Rightarrow> r | PosInf \<Rightarrow> 0 | NegInf \<Rightarrow> 0 | NaN \<Rightarrow> 0)"

definition exact_sum :: "order_item list \<Rightarrow> rat" where
  "exact_sum its = sum_list (map (\<lambda>item. exact_value (oi_price item) * of_int (oi_quantity item)) its)"

section \<open>Sample documents\<close>

definition ex_env :: env where
  "ex_env = \<lparr>now = 1700000000000, random = 42\<rparr>"

definition ex_address :: shipping_address where
  "ex_address = \<lparr>fullName = ''Ann Lee'', addressLine1 = ''1 Main St'', addressLine2 = [],
     city = ''Springfield'', state = ''IL'', zipCode = ''62701'', country = ''United States'',
     phone = []\<rparr>"

definition ex_order :: "order_status \<Rightarrow> order" where
  "ex_order st =
     \<lparr>orderNumber = Some (12345678, 7), o_user = 7,
      o_items = [\<lparr>oi_product = 1, oi_name = ''Lamp'', oi_price = Num 10, oi_quantity = 2,
                  oi_subtotal = Num 20\<rparr>],
      o_totalItems = 2, subtotal = Num 20, tax = Num 0, shipping = Num 10,
      o_totalAmount = Num 30, paymentMethod = ''Card'', paymentStatus = PayPending,
      orderStatus = st, shippingAddress = ex_address, o_notes = None,
      estimatedDelivery = Some 1700604800000, deliveredAt = None, cancelledAt = None,
      cancellationReason = None\<rparr>"

definition ex_lamp :: "int \<Rightarrow> product" where
  "ex_lamp n = \<lparr>p_name = ''Lamp'', p_price = Num 10, p_stock = n, p_isActive = True\<rparr>"



definition ex_cart :: cart where
  "ex_cart = \<lparr>c_items = [\<lparr>ci_product = 1, ci_quantity = 2, ci_price = Num 10\<rparr>],
              c_totalItems = 2, c_totalAmount = Num 20\<rparr>"

definition ex_lamp_repriced :: product where
  "ex_lamp_repriced = \<lparr>p_name = ''Lamp'', p_price = Num 12, p_stock = 8, p_isActive = True\<rparr>"

definition ex_stale_db :: db where
  "ex_stale_db =
     \<lparr>products = [1 \<mapsto> ex_lamp 8,
                  2 \<mapsto> \<lparr>p_name = ''Desk'', p_price = Num 80, p_stock = 3, p_isActive = False\<rparr>,
                  4 \<mapsto> \<lparr>p_name = ''Vase'', p_price = Num 5, p_stock = 0, p_isActive = True\<rparr>],
      carts = [7 \<mapsto> \<lparr>c_items = [\<lparr>ci_product = 1, ci_quantity = 2, ci_price = Num 10\<rparr>,
                                 \<lparr>ci_product = 2, ci_quantity = 1, ci_price = Num 80\<rparr>,
                                 \<lparr>ci_product = 3, ci_quantity = 1, ci_price = Num 7\<rparr>,
                                 \<lparr>ci_product = 4, ci_quantity = 4, ci_price = Num 5\<rparr>],
                     c_totalItems = 8, c_totalAmount = Num 127\<rparr>],
      orders = []\<rparr>"

definition ex_body :: place_body where
  "ex_body = \<lparr>body_paymentMethod = ''Card'', body_shippingAddress = Some ex_address,
               body_notes = None\<rparr>"

definition ex_desk :: product where
  "ex_desk = \<lparr>p_name = ''Desk'', p_price = Num 80, p_stock = 3, p_isActive = False\<rparr>"

text \<open>User 7 has \<open>q\<close> lamps in the cart; \<open>n\<close> lamps are in stock.\<close>

definition ex_lamp_db :: "int \<Rightarrow> int \<Rightarrow> db" where
  "ex_lamp_db n q =
     \<lparr>products = [1 \<mapsto> ex_lamp n],
      carts = [7 \<mapsto> \<lparr>c_items = [\<lparr>ci_product = 1, ci_quantity = q, ci_price = Num 10\<rparr>],
                     c_totalItems = q, c_totalAmount = Num 20\<rparr>],
      orders = []\<rparr>"

text \<open>User 7 has a desk in the cart that has since been deactivated.\<close>

definition ex_desk_db :: db where
  "ex_desk_db =
     \<lparr>products = [2 \<mapsto> ex_desk],
      carts = [7 \<mapsto> \<lparr>c_items = [\<lparr>ci_product = 2, ci_quantity = 1, ci_price = Num 80\<rparr>],
                     c_totalItems = 1, c_totalAmount = Num 80\<rparr>],
      orders = []\<rparr>"



text \<open>The \<^verbatim>\<open>Number\<close>s written \<^verbatim>\<open>0.1\<close> and \<^verbatim>\<open>0.2\<close>.\<close>

definition dime :: number where
  "dime = Num (3602879701896397 / 36028797018963968)"

definition two_dimes :: number where
  "two_dimes = Num (3602879701896397 / 18014398509481984)"

text \<open>User 7 has one gum at 0.1 and one mint at 0.2 in the cart.\<close>

definition ex_dime_db :: db where
  "ex_dime_db =
     \<lparr>products = [1 \<mapsto> \<lparr>p_name = ''Gum'', p_price = dime, p_stock = 9, p_isActive = True\<rparr>,
                  2 \<mapsto> \<lparr>p_name = ''Mint'', p_price = two_dimes, p_stock = 9, p_isActive = True\<rparr>],
      carts = [7 \<mapsto> \<lparr>c_items = [\<lparr>ci_product = 1, ci_quantity = 1, ci_price = dime\<rparr>,
                                 \<lparr>ci_product = 2, ci_quantity = 1, ci_price = two_dimes\<rparr>],
                     c_totalItems = 2, c_totalAmount = Num (1351079888211149 / 4503599627370496)\<rparr>],
      orders = []\<rparr>"

text \<open>Users 7 and 8 each have \<open>q\<close> lamps in the cart; \<open>n\<close> lamps are in stock.\<close>

definition ex_race_db :: "int \<Rightarrow> int \<Rightarrow> db" where
  "ex_race_db n q =
     \<lparr>products = [1 \<mapsto> ex_lamp n],
      carts = [7 \<mapsto> \<lparr>c_items = [\<lparr>ci_product = 1, ci_quantity = q, ci_price = Num 10\<rparr>],
                     c_totalItems = q, c_totalAmount = Num 10\<rparr>,
               8 \<mapsto> \<lparr>c_items = [\<lparr>ci_product = 1, ci_quantity = q, ci_price = Num 10\<rparr>],
                     c_totalItems = q, c_totalAmount = Num 10\<rparr>],
      orders = []\<rparr>"

text \<open>Two orders; the first has the given status, the second is pending.\<close>

definition ex_two_orders_db :: "order_status \<Rightarrow> db" where
  "ex_two_orders_db st =
     \<lparr>products = [1 \<mapsto> ex_lamp 8],
      carts = [7 \<mapsto> ex_cart],
      orders = [ex_order st, (ex_order Pending)\<lparr>o_user := 8\<rparr>]\<rparr>"


text \<open>The data of the order that the controller builds from the cart of user 7 in
  \<open>ex_dime_db\<close>.\<close>

definition ex_dime_data :: orderData where
  "ex_dime_data =
     \<lparr>od_user = 7,
      od_items = [\<lparr>oi_product = 1, oi_name = ''Gum'', oi_price = dime, oi_quantity = 1,
                   oi_subtotal = dime\<rparr>,
                  \<lparr>oi_product = 2, oi_name = ''Mint'', oi_price = two_dimes, oi_quantity = 1,
                   oi_subtotal = two_dimes\<rparr>],
      od_totalItems = 2, od_subtotal = Num (1351079888211149 / 4503599627370496),
      od_tax = Num (6917529027641083 / 288230376151711744), od_shipping = Num 10,
      od_totalAmount = Num (5811895319121625 / 562949953421312),
      od_paymentMethod = ''Card'', od_shippingAddress = ex_address, od_notes = None\<rparr>"

text \<open>A stored order for one gum at 0.1 and one mint at 0.2, with the values of
  \<open>ex_dime_data\<close>.\<close>

definition ex_dime_order :: order where
  "ex_dime_order =
     \<lparr>orderNumber = Some (12345678, 7), o_user = 7,
      o_items = [\<lparr>oi_product = 1, oi_name = ''Gum'', oi_price = dime, oi_quantity = 1,
                  oi_subtotal = dime\<rparr>,
                 \<lparr>oi_product = 2, oi_name = ''Mint'', oi_price = two_dimes, oi_quantity = 1,
                  oi_subtotal = two_dimes\<rparr>],
      o_totalItems = 2, subtotal = Num (1351079888211149 / 4503599627370496),
      tax = Num (6917529027641083 / 288230376151711744), shipping = Num 10,
      o_totalAmount = Num (5811895319121625 / 562949953421312), paymentMethod = ''Card'',
      paymentStatus = PayPending, orderStatus = Pending, shippingAddress = ex_address,
      o_notes = None, estimatedDelivery = Some 1700604800000, deliveredAt = None,
      cancelledAt = None, cancellationReason = None\<rparr>"



section \<open>Evaluating the arithmetic\<close>

text \<open>Rewrite rules that let the simplifier compute \<open>round_double\<close> on numerals.\<close>

lemma bits_0: "bits 0 = 0" by (simp add: bits.simps)
lemma bits_numeral: "bits (numeral k) = Suc (bits (numeral k div 2))"
  by (subst bits.simps) simp
lemma bits_1: "bits (Suc 0) = Suc 0" by (simp add: bits.simps)
lemma floor_rat_numeral_div: "\<lfloor>numeral a / numeral b :: rat\<rfloor> = numeral a div numeral b"
  using floor_divide_of_int_eq [of "numeral a" "numeral b", where ?'a = rat] by simp
lemma floor_rat_one_div: "\<lfloor>1 / numeral b :: rat\<rfloor> = 1 div numeral b"
  using floor_divide_of_int_eq [of 1 "numeral b", where ?'a = rat] by simp
lemma ceiling_rat_numeral_div: "\<lceil>numeral a / numeral b :: rat\<rceil> = - (- numeral a div numeral b)"
  using ceiling_divide_eq_div [of "numeral a" "numeral b", where ?'a = rat] by simp
lemma ceiling_rat_one_div: "\<lceil>1 / numeral b :: rat\<rceil> = - (- 1 div numeral b)"
  using ceiling_divide_eq_div [of 1 "numeral b", where ?'a = rat] by simp
lemmas eval_num = round_double_def ilog2_def pow2_def round_half_even_def Let_def
  bits_0 bits_numeral bits_1 num_of_int_def tax_rate_def floor_rat_numeral_div floor_rat_one_div
  ceiling_rat_numeral_div ceiling_rat_one_div

section \<open>Status updates\<close>

lemma products_updateStatus:
  "products (fst (updateStatus e d i ord s r)) = products d"
  by (simp add: updateStatus_def order_save_def Let_def)

lemma orderStatus_updateStatus:
  "orderStatus (snd (updateStatus e d i ord s r)) = s"
  by (simp add: updateStatus_def order_save_def order_pre_save_def calculateTotals_def Let_def)

lemma orders_updateStatus:
  "orders (fst (updateStatus e d i ord s r)) = (orders d)[i := snd (updateStatus e d i ord s r)]"
  by (simp add: updateStatus_def order_save_def Let_def)

lemma carts_updateStatus:
  "carts (fst (updateStatus e d i ord s r)) = carts d"
  by (simp add: updateStatus_def order_save_def Let_def)

text \<open>
  C10. The administrator's status update writes the order it names and nothing else:
  whatever the target status (also \<open>Cancelled\<close>), the order id and the store, the
  products with their stock counts and the carts are the same afterwards, there are as many
  orders as before, and every other order is as it was.
\<close>

theorem updateOrderStatus_frame:
  "products (fst (updateOrderStatus e d i status reason)) = products d
   \<and> carts (fst (updateOrderStatus e d i status reason)) = carts d
   \<and> length (orders (fst (updateOrderStatus e d i status reason))) = length (orders d)
   \<and> (\<forall>j. j \<noteq> i \<longrightarrow>
          orders (fst (updateOrderStatus e d i status reason)) ! j = orders d ! j)"
proof (cases status)
  case None
  then show ?thesis by (simp add: updateOrderStatus_def)
next
  case (Some s)
  show ?thesis
  proof (cases "order_findById d i")
    case None
    with Some show ?thesis by (simp add: updateOrderStatus_def)
  next
    case found: (Some ord)
    have run: "fst (updateOrderStatus e d i status reason) = fst (updateStatus e d i ord s reason)"
      using Some found by (simp add: updateOrderStatus_def split_beta)
    show ?thesis
      unfolding run
      by (simp add: products_updateStatus carts_updateStatus orders_updateStatus)
  qed
qed

theorem updateOrderStatus_frame_witness:
  "products (fst (updateOrderStatus ex_env (ex_two_orders_db Shipped) 0 (Some Cancelled) None))
     = products (ex_two_orders_db Shipped)
   \<and> carts (fst (updateOrderStatus ex_env (ex_two_orders_db Shipped) 0 (Some Cancelled) None))
     = carts (ex_two_orders_db Shipped)
   \<and> length (orders (fst (updateOrderStatus ex_env (ex_two_orders_db Shipped) 0 (Some Cancelled) None))) = 2
   \<and> orders (fst (updateOrderStatus ex_env (ex_two_orders_db Shipped) 0 (Some Cancelled) None)) ! 1
     = (ex_order Pending)\<lparr>o_user := 8\<rparr>
   \<and> orderStatus (orders (fst (updateOrderStatus ex_env (ex_two_orders_db Shipped) 0 (Some Cancelled) None)) ! 0)
     = Cancelled"
proof -
  note r = updateOrderStatus_frame [of ex_env "ex_two_orders_db Shipped" 0 "Some Cancelled" None]
  have len: "length (orders (ex_two_orders_db Shipped)) = 2"
    and other: "orders (ex_two_orders_db Shipped) ! 1 = (ex_order Pending)\<lparr>o_user := 8\<rparr>"
    by (simp_all add: ex_two_orders_db_def)
  have "(1::nat) \<noteq> 0" by simp
  with r have keep: "orders (fst (updateOrderStatus ex_env (ex_two_orders_db Shipped) 0 (Some Cancelled) None)) ! 1
      = orders (ex_two_orders_db Shipped) ! 1"
    by blast
  have st: "orderStatus (orders (fst (updateOrderStatus ex_env (ex_two_orders_db Shipped) 0 (Some Cancelled) None)) ! 0)
     = Cancelled"
    by (simp add: updateOrderStatus_def order_findById_def ex_two_orders_db_def split_beta
          orders_updateStatus orderStatus_updateStatus)
  show ?thesis
    using r len keep st unfolding other by simp
qed




section \<open>Cart lines\<close>

lemma findIndex_SomeD:
  "findIndex P xs = Some i \<Longrightarrow> i < length xs \<and> P (xs ! i) \<and> find P xs = Some (xs ! i)"
  by (induction xs arbitrary: i) (auto split: if_splits)

lemma findIndex_None_iff: "findIndex P xs = None \<longleftrightarrow> find P xs = None"
  by (induction xs) auto

lemma find_Some_findIndex:
  "find P xs = Some x \<Longrightarrow> \<exists>i. findIndex P xs = Some i \<and> xs ! i = x"
  by (induction xs) (auto split: if_splits)

lemma find_update_first:
  "findIndex P xs = Some i \<Longrightarrow> P y \<Longrightarrow> find P (xs[i := y]) = Some y"
  by (induction xs arbitrary: i) (auto split: if_splits)

lemma find_update_other:
  "i < length xs \<Longrightarrow> \<not> Q (xs ! i) \<Longrightarrow> \<not> Q y \<Longrightarrow> find Q (xs[i := y]) = find Q xs"
proof (induction xs arbitrary: i)
  case Nil
  then show ?case by simp
next
  case (Cons x xs)
  then show ?case by (cases i) auto
qed

lemma findIndex_append_new:
  "findIndex P xs = None \<Longrightarrow> P y \<Longrightarrow> findIndex P (xs @ [y]) = Some (length xs)"
  by (induction xs) (auto split: if_splits)

text \<open>
  C6, as stated, fails in its last part: adding to a line that exists leaves the line's price
  snapshot as it was. The cart holds product 1 at the snapshot price 10; the product now
  costs 12; after \<open>addItem\<close> the line has quantity 5 and still the price 10.
\<close>

theorem addItem_price_counterexample:
  "getItem ex_cart 1 = Some \<lparr>ci_product = 1, ci_quantity = 2, ci_price = Num 10\<rparr>
   \<and> getItem (addItem ex_cart 1 ex_lamp_repriced 3) 1
       = Some \<lparr>ci_product = 1, ci_quantity = 5, ci_price = Num 10\<rparr>
   \<and> p_price ex_lamp_repriced = Num 12"
  by (simp add: getItem_def addItem_def ex_cart_def ex_lamp_repriced_def)

text \<open>
  C6, amended. When the cart has a line for the product, \<open>addItem\<close> adds the quantity to
  that line and changes nothing else: the cart has as many lines as before, the line keeps
  its price snapshot, and the lines of other products are as they were. When the cart has no
  line for the product, two calls append one line whose quantity is the sum of the two
  quantities, at the price of the product passed to the first call.
\<close>

theorem addItem_additive:
  "(getItem c pid = Some item \<longrightarrow>
        getItem (addItem c pid p q) pid = Some (item\<lparr>ci_quantity := ci_quantity item + q\<rparr>)
      \<and> length (c_items (addItem c pid p q)) = length (c_items c)
      \<and> (\<forall>pid'. pid' \<noteq> pid \<longrightarrow> getItem (addItem c pid p q) pid' = getItem c pid'))
   \<and> (getItem c pid = None \<longrightarrow>
        c_items (addItem (addItem c pid p1 q1) pid p2 q2)
          = c_items c @ [\<lparr>ci_product = pid, ci_quantity = q1 + q2, ci_price = p_price p1\<rparr>])"
proof (intro conjI impI)
  assume present: "getItem c pid = Some item"
  then obtain i where i: "findIndex (\<lambda>it. ci_product it = pid) (c_items c) = Some i"
    and at: "c_items c ! i = item"
    unfolding getItem_def by (blast dest: find_Some_findIndex)
  from findIndex_SomeD [OF i] have len: "i < length (c_items c)"
    and prd: "ci_product (c_items c ! i) = pid" by simp_all
  have upd: "c_items (addItem c pid p q)
      = (c_items c)[i := item\<lparr>ci_quantity := ci_quantity item + q\<rparr>]"
    using i at by (simp add: addItem_def)
  show "getItem (addItem c pid p q) pid = Some (item\<lparr>ci_quantity := ci_quantity item + q\<rparr>)"
    unfolding getItem_def upd using find_update_first [OF i] prd at by simp
  show "length (c_items (addItem c pid p q)) = length (c_items c)"
    by (simp add: upd)
  show "\<forall>pid'. pid' \<noteq> pid \<longrightarrow> getItem (addItem c pid p q) pid' = getItem c pid'"
    unfolding getItem_def upd using len prd at by (auto intro!: find_update_other)
next
  assume absent: "getItem c pid = None"
  then have none: "findIndex (\<lambda>it. ci_product it = pid) (c_items c) = None"
    by (simp add: getItem_def findIndex_None_iff)
  let ?line = "\<lparr>ci_product = pid, ci_quantity = q1, ci_price = p_price p1\<rparr>"
  have first: "c_items (addItem c pid p1 q1) = c_items c @ [?line]"
    using none by (simp add: addItem_def)
  have idx: "findIndex (\<lambda>it. ci_product it = pid) (c_items c @ [?line]) = Some (length (c_items c))"
    using none by (simp add: findIndex_append_new)
  show "c_items (addItem (addItem c pid p1 q1) pid p2 q2)
          = c_items c @ [\<lparr>ci_product = pid, ci_quantity = q1 + q2, ci_price = p_price p1\<rparr>]"
    by (simp add: addItem_def [of "addItem c pid p1 q1"] first idx)
qed

theorem addItem_additive_witness:
  "getItem ex_cart 1 = Some \<lparr>ci_product = 1, ci_quantity = 2, ci_price = Num 10\<rparr>
   \<and> getItem (addItem ex_cart 1 ex_lamp_repriced 3) 1
       = Some \<lparr>ci_product = 1, ci_quantity = 5, ci_price = Num 10\<rparr>
   \<and> length (c_items (addItem ex_cart 1 ex_lamp_repriced 3)) = 1
   \<and> getItem ex_cart 2 = None
   \<and> c_items (addItem (addItem ex_cart 2 ex_lamp_repriced 2) 2 ex_lamp_repriced 3)
       = c_items ex_cart @ [\<lparr>ci_product = 2, ci_quantity = 5, ci_price = Num 12\<rparr>]"
proof -
  have h1: "getItem ex_cart 1 = Some \<lparr>ci_product = 1, ci_quantity = 2, ci_price = Num 10\<rparr>"
    by (simp add: getItem_def ex_cart_def)
  have h2: "getItem ex_cart 2 = None"
    by (simp add: getItem_def ex_cart_def)
  have len: "length (c_items ex_cart) = 1"
    by (simp add: ex_cart_def)
  show ?thesis
    using h1 h2 len
      addItem_additive [of ex_cart 1 "\<lparr>ci_product = 1, ci_quantity = 2, ci_price = Num 10\<rparr>"
        ex_lamp_repriced 3]
      addItem_additive [of ex_cart 2 _ _ _ ex_lamp_repriced 2 ex_lamp_repriced 3]
    by (simp add: ex_lamp_repriced_def)
qed

section \<open>Reading the cart\<close>

lemma active_items_populate:
  "filter is_active_item (map (\<lambda>item. (item, products d (ci_product item))) its)
   = map (\<lambda>item. (item, products d (ci_product item))) (filter (in_stock_active d) its)"
  by (induction its) (auto simp: in_stock_active_def split: option.splits)

lemma filter_same_length:
  "length (filter P xs) = length xs \<Longrightarrow> filter P xs = xs"
proof (induction xs)
  case Nil
  then show ?case by simp
next
  case (Cons x xs)
  have le: "length (filter P xs) \<le> length xs" by simp
  show ?case
  proof (cases "P x")
    case True
    with Cons show ?thesis by simp
  next
    case False
    with Cons.prems le show ?thesis by simp
  qed
qed

lemma getCart_missing:
  assumes "carts d uid = None"
  shows "getCart d uid =
     (d\<lparr>carts := (carts d)(uid \<mapsto> \<lparr>c_items = [], c_totalItems = 0, c_totalAmount = Num 0\<rparr>)\<rparr>,
      \<lparr>lc_items = [], lc_totalItems = 0, lc_totalAmount = Num 0\<rparr>)"
  using assms
  by (simp add: getCart_def cart_findByUser_def cart_create_def cart_save_def Let_def
        populate_def cart_calculateTotals_def total_quantity_def total_amount_def)

lemma getCart_pruned:
  assumes "carts d uid = Some c" and "kept = filter (in_stock_active d) (c_items c)"
    and "length kept \<noteq> length (c_items c)"
  shows "getCart d uid =
     (d\<lparr>carts := (carts d)(uid \<mapsto> \<lparr>c_items = kept, c_totalItems = total_quantity kept,
                                     c_totalAmount = total_amount kept\<rparr>)\<rparr>,
      \<lparr>lc_items = map (\<lambda>item. (item, products d (ci_product item))) kept,
       lc_totalItems = total_quantity kept, lc_totalAmount = total_amount kept\<rparr>)"
proof -
  have find: "cart_findByUser d uid = Some (populate d c)"
    using assms(1) by (simp add: cart_findByUser_def)
  have act: "filter is_active_item (lc_items (populate d c))
      = map (\<lambda>item. (item, products d (ci_product item))) kept"
    by (simp add: populate_def active_items_populate assms(2))
  have len: "length (lc_items (populate d c)) = length (c_items c)"
    by (simp add: populate_def)
  show ?thesis
    unfolding getCart_def find Let_def option.case prod.case act len
    using assms(3)
    by (simp add: loaded_save_def loaded_calculateTotals_def Let_def comp_def populate_def)
qed

lemma getCart_unpruned:
  assumes "carts d uid = Some c"
    and "length (filter (in_stock_active d) (c_items c)) = length (c_items c)"
  shows "getCart d uid = (d, populate d c)"
proof -
  have find: "cart_findByUser d uid = Some (populate d c)"
    using assms(1) by (simp add: cart_findByUser_def)
  have act: "filter is_active_item (lc_items (populate d c))
      = map (\<lambda>item. (item, products d (ci_product item))) (filter (in_stock_active d) (c_items c))"
    by (simp add: populate_def active_items_populate)
  have len: "length (lc_items (populate d c)) = length (c_items c)"
    by (simp add: populate_def)
  show ?thesis
    unfolding getCart_def find Let_def option.case prod.case act len
    using assms(2) by simp
qed

text \<open>
  C9. \<open>getCart\<close> returns the items of the stored cart whose product exists, is active and
  has positive stock, in their order, each with the product it refers to; the cart stored
  for the user afterwards has these items and the totals that are returned; when an item
  was removed the totals are recomputed from the items that remain. Products, orders and
  the carts of other users are not touched.
\<close>

theorem getCart_prunes:
  assumes "getCart d uid = (d', lc)"
  shows "map fst (lc_items lc)
           = filter (in_stock_active d) (case carts d uid of None \<Rightarrow> [] | Some c \<Rightarrow> c_items c)
       \<and> (\<forall>(item, prd) \<in> set (lc_items lc).
             prd = products d (ci_product item) \<and> in_stock_active d item)
       \<and> carts d' uid = Some \<lparr>c_items = map fst (lc_items lc), c_totalItems = lc_totalItems lc,
                               c_totalAmount = lc_totalAmount lc\<rparr>
       \<and> ((\<exists>c. carts d uid = Some c \<and> length (lc_items lc) \<noteq> length (c_items c)) \<longrightarrow>
             lc_totalItems lc = total_quantity (map fst (lc_items lc))
           \<and> lc_totalAmount lc = total_amount (map fst (lc_items lc)))
       \<and> products d' = products d \<and> orders d' = orders d
       \<and> (\<forall>u. u \<noteq> uid \<longrightarrow> carts d' u = carts d u)"
proof (cases "carts d uid")
  case None
  from assms have d': "d' = fst (getCart d uid)" and lc: "lc = snd (getCart d uid)"
    by simp_all
  show ?thesis
    unfolding d' lc getCart_missing [OF None] using None by simp
next
  case (Some c)
  define kept where "kept = filter (in_stock_active d) (c_items c)"
  from assms have d': "d' = fst (getCart d uid)" and lc: "lc = snd (getCart d uid)"
    by simp_all
  show ?thesis
  proof (cases "length kept = length (c_items c)")
    case True
    then have all: "kept = c_items c"
      unfolding kept_def by (rule filter_same_length)
    have res: "getCart d uid = (d, populate d c)"
      using Some True unfolding kept_def by (rule getCart_unpruned)
    have ok: "\<forall>item \<in> set (c_items c). in_stock_active d item"
      using all unfolding kept_def by (metis filter_id_conv)
    show ?thesis
      unfolding d' lc res using Some all ok
      by (simp add: populate_def comp_def kept_def)
  next
    case False
    have res: "getCart d uid =
       (d\<lparr>carts := (carts d)(uid \<mapsto> \<lparr>c_items = kept, c_totalItems = total_quantity kept,
                                     c_totalAmount = total_amount kept\<rparr>)\<rparr>,
        \<lparr>lc_items = map (\<lambda>item. (item, products d (ci_product item))) kept,
         lc_totalItems = total_quantity kept, lc_totalAmount = total_amount kept\<rparr>)"
      using Some kept_def False by (rule getCart_pruned)
    have ok: "\<forall>item \<in> set kept. in_stock_active d item"
      by (simp add: kept_def)
    show ?thesis
      unfolding d' lc res using Some ok
      by (simp add: comp_def kept_def)
  qed
qed
theorem getCart_prunes_witness:
  "getCart ex_stale_db 7 = (fst (getCart ex_stale_db 7), snd (getCart ex_stale_db 7))
   \<and> map fst (lc_items (snd (getCart ex_stale_db 7)))
       = [\<lparr>ci_product = 1, ci_quantity = 2, ci_price = Num 10\<rparr>]
   \<and> carts (fst (getCart ex_stale_db 7)) 7
       = Some \<lparr>c_items = [\<lparr>ci_product = 1, ci_quantity = 2, ci_price = Num 10\<rparr>],
               c_totalItems = 2, c_totalAmount = Num 20\<rparr>
   \<and> carts (fst (getCart ex_stale_db 7)) 7 \<noteq> carts ex_stale_db 7
   \<and> products (fst (getCart ex_stale_db 7)) = products ex_stale_db"
proof -
  let ?line = "\<lparr>ci_product = 1, ci_quantity = 2, ci_price = Num 10\<rparr>"
  have h: "getCart ex_stale_db 7 = (fst (getCart ex_stale_db 7), snd (getCart ex_stale_db 7))"
    by simp
  note r = getCart_prunes [OF h]
  have kept: "filter (in_stock_active ex_stale_db)
                (case carts ex_stale_db 7 of None \<Rightarrow> [] | Some c \<Rightarrow> c_items c) = [?line]"
    by (simp add: ex_stale_db_def in_stock_active_def ex_lamp_def)
  have items: "map fst (lc_items (snd (getCart ex_stale_db 7))) = [?line]"
    using r kept by simp
  have "\<exists>c. carts ex_stale_db 7 = Some c
          \<and> length (lc_items (snd (getCart ex_stale_db 7))) \<noteq> length (c_items c)"
    using arg_cong [OF items, of length] by (simp add: ex_stale_db_def)
  with r have totals:
    "lc_totalItems (snd (getCart ex_stale_db 7)) = total_quantity [?line]"
    "lc_totalAmount (snd (getCart ex_stale_db 7)) = total_amount [?line]"
    unfolding items by blast+
  have q: "total_quantity [?line] = 2"
    by (simp add: total_quantity_def)
  have a: "total_amount [?line] = Num 20"
    by (simp add: total_amount_def eval_num)
  have stored: "carts (fst (getCart ex_stale_db 7)) 7
       = Some \<lparr>c_items = [?line], c_totalItems = 2, c_totalAmount = Num 20\<rparr>"
    using r items totals q a by simp
  have before: "carts ex_stale_db 7 \<noteq> Some \<lparr>c_items = [?line], c_totalItems = 2, c_totalAmount = Num 20\<rparr>"
    by (simp add: ex_stale_db_def)
  show ?thesis
    using h items stored before r by simp
qed

section \<open>The loop over the cart\<close>

lemma loop_fails:
  "find line_fails its = Some (item, prd) \<Longrightarrow>
   order_items_loop its acc sub =
     Inl (case prd of
            None \<Rightarrow> AppError (NoLongerAvailable ''Unknown'') 400 ''ValidationError''
          | Some p \<Rightarrow>
              if \<not> p_isActive p
              then AppError (NoLongerAvailable (if p_name p = [] then ''Unknown'' else p_name p))
                     400 ''ValidationError''
              else AppError (InsufficientStock (p_name p) (p_stock p)) 400 ''StockError'')"
proof (induction its arbitrary: acc sub)
  case Nil
  then show ?case by simp
next
  case (Cons x its)
  obtain ci pr where x: "x = (ci, pr)" by (cases x)
  show ?case
  proof (cases "line_fails x")
    case True
    with Cons.prems x have "ci = item" "pr = prd" by simp_all
    with True x show ?thesis
      by (auto simp: line_fails_def split: option.splits)
  next
    case False
    then obtain p where p: "pr = Some p" "p_isActive p" "\<not> p_stock p < ci_quantity ci"
      using x by (auto simp: line_fails_def split: option.splits)
    from False Cons.prems have "find line_fails its = Some (item, prd)" by simp
    from Cons.IH [OF this] show ?thesis
      using x p by (simp add: Let_def)
  qed
qed

lemma loop_succeeds:
  "find line_fails its = None \<Longrightarrow>
   \<exists>built. order_items_loop its acc sub
       = Inr (acc @ built, foldl (\<lambda>total item. jadd total (oi_subtotal item)) sub built)
     \<and> length built = length its
     \<and> (\<forall>k < length its. \<exists>p. snd (its ! k) = Some p \<and> p_isActive p
            \<and> ci_quantity (fst (its ! k)) \<le> p_stock p
            \<and> built ! k = snapshot (fst (its ! k)) p)"
proof (induction its arbitrary: acc sub)
  case Nil
  then show ?case by simp
next
  case (Cons x its)
  obtain ci pr where x: "x = (ci, pr)" by (cases x)
  from Cons.prems have ok: "\<not> line_fails x" and rest: "find line_fails its = None"
    by (simp_all split: if_splits)
  from ok obtain p where p: "pr = Some p" "p_isActive p" "\<not> p_stock p < ci_quantity ci"
    using x by (auto simp: line_fails_def split: option.splits)
  from Cons.IH [OF rest, of "acc @ [snapshot ci p]" "jadd sub (oi_subtotal (snapshot ci p))"]
  obtain built where b:
    "order_items_loop its (acc @ [snapshot ci p]) (jadd sub (oi_subtotal (snapshot ci p)))
       = Inr ((acc @ [snapshot ci p]) @ built,
              foldl (\<lambda>total item. jadd total (oi_subtotal item))
                (jadd sub (oi_subtotal (snapshot ci p))) built)"
    "length built = length its"
    "\<forall>k < length its. \<exists>p. snd (its ! k) = Some p \<and> p_isActive p
            \<and> ci_quantity (fst (its ! k)) \<le> p_stock p
            \<and> built ! k = snapshot (fst (its ! k)) p"
    by blast
  have step: "order_items_loop (x # its) acc sub
      = order_items_loop its (acc @ [snapshot ci p]) (jadd sub (oi_subtotal (snapshot ci p)))"
    using x p by (simp add: Let_def snapshot_def)
  have nth: "\<forall>k < length (x # its). \<exists>q. snd ((x # its) ! k) = Some q \<and> p_isActive q
            \<and> ci_quantity (fst ((x # its) ! k)) \<le> p_stock q
            \<and> (snapshot ci p # built) ! k = snapshot (fst ((x # its) ! k)) q"
  proof (intro allI impI)
    fix k assume "k < length (x # its)"
    then show "\<exists>q. snd ((x # its) ! k) = Some q \<and> p_isActive q
            \<and> ci_quantity (fst ((x # its) ! k)) \<le> p_stock q
            \<and> (snapshot ci p # built) ! k = snapshot (fst ((x # its) ! k)) q"
      using x p b(3) by (cases k) auto
  qed
  show ?case
    apply (rule exI [of _ "snapshot ci p # built"])
    using step b(1) b(2) nth by simp
qed

lemma loop_Inr_no_failure:
  "order_items_loop its acc sub = Inr r \<Longrightarrow> find line_fails its = None"
proof (cases "find line_fails its")
  case None
  then show ?thesis by simp
next
  case (Some x)
  assume r: "order_items_loop its acc sub = Inr r"
  obtain ci pr where "x = (ci, pr)" by (cases x)
  with Some loop_fails [of its ci pr acc sub] r show ?thesis by simp
qed
section \<open>Stock changes\<close>


lemma inc_stock_orders: "orders (inc_stock d i n) = orders d"
  by (simp add: inc_stock_def split: option.splits)

lemma inc_stock_carts: "carts (inc_stock d i n) = carts d"
  by (simp add: inc_stock_def split: option.splits)






lemma reduce_stock_orders: "orders (reduce_stock d its) = orders d"
  by (induction its arbitrary: d) (simp_all add: reduce_stock_def inc_stock_orders)

lemma reduce_stock_carts: "carts (reduce_stock d its) = carts d"
  by (induction its arbitrary: d) (simp_all add: reduce_stock_def inc_stock_carts)



section \<open>The lines of an order\<close>

lemma subtotal_fold_snapshots:
  "\<forall>item \<in> set its. oi_subtotal item = line_total item \<Longrightarrow>
   foldl (\<lambda>total item. jadd total (oi_subtotal item)) s its
     = foldl (\<lambda>total item. jadd total (line_total item)) s its"
  by (induction its arbitrary: s) simp_all

lemma snapshot_fields:
  "oi_subtotal (snapshot ci p) = line_total (snapshot ci p)"
  "oi_product (snapshot ci p) = ci_product ci"
  "oi_quantity (snapshot ci p) = ci_quantity ci"
  "oi_price (snapshot ci p) = p_price p"
  "oi_name (snapshot ci p) = p_name p"
  by (simp_all add: snapshot_def line_total_def)

section \<open>Rejected placements\<close>

lemma validate_ex_body: "validate_body ex_body = None"
  by (simp add: validate_body_def ex_body_def ex_address_def requiredAddressFields_def)

text \<open>
  C2, as stated, fails for a line whose product is inactive (or gone): the placement is
  refused with an error of type \<^verbatim>\<open>ValidationError\<close> that carries no quantity, not with a
  \<^verbatim>\<open>StockError\<close>.
\<close>

theorem placeOrder_inactive_counterexample:
  "line_fails (\<lparr>ci_product = 2, ci_quantity = 1, ci_price = Num 80\<rparr>, products ex_desk_db 2)
   \<and> placeOrder ex_env ex_desk_db 7 ex_body
       = (ex_desk_db, Inl (AppError (NoLongerAvailable ''Desk'') 400 ''ValidationError''))"
  by (simp add: placeOrder_def validate_ex_body cart_findByUser_def populate_def
        order_data_def isEmpty_def ex_desk_db_def ex_desk_def line_fails_def)

text \<open>
  C2, amended. Let the body of the request be valid and let the cart have a line that the
  loop rejects; take the first such line. Then the placement fails and the store is as it
  was (no order, every stock count and the cart unchanged). The error is a
  \<^verbatim>\<open>ValidationError\<close> "no longer available" when the product of that line is gone or
  inactive, and a \<^verbatim>\<open>StockError\<close> carrying the product's stock when the product is active and
  its stock is less than the requested quantity.
\<close>

theorem placeOrder_rejects_cart:
  assumes "validate_body body = None" and "carts d uid = Some c"
    and "find line_fails (lc_items (populate d c)) = Some (item, prd)"
  shows "fst (placeOrder e d uid body) = d
       \<and> (prd = None \<longrightarrow> snd (placeOrder e d uid body)
             = Inl (AppError (NoLongerAvailable ''Unknown'') 400 ''ValidationError''))
       \<and> (\<forall>p. prd = Some p \<and> \<not> p_isActive p \<longrightarrow> snd (placeOrder e d uid body)
             = Inl (AppError (NoLongerAvailable (if p_name p = [] then ''Unknown'' else p_name p))
                      400 ''ValidationError''))
       \<and> (\<forall>p. prd = Some p \<and> p_isActive p \<longrightarrow> p_stock p < ci_quantity item
             \<and> snd (placeOrder e d uid body)
                 = Inl (AppError (InsufficientStock (p_name p) (p_stock p)) 400 ''StockError''))"
proof -
  let ?err = "case prd of
            None \<Rightarrow> AppError (NoLongerAvailable ''Unknown'') 400 ''ValidationError''
          | Some p \<Rightarrow>
              if \<not> p_isActive p
              then AppError (NoLongerAvailable (if p_name p = [] then ''Unknown'' else p_name p))
                     400 ''ValidationError''
              else AppError (InsufficientStock (p_name p) (p_stock p)) 400 ''StockError''"
  have lc: "cart_findByUser d uid = Some (populate d c)"
    using assms(2) by (simp add: cart_findByUser_def)
  have ne: "\<not> isEmpty (populate d c)"
    using assms(3) by (auto simp: isEmpty_def)
  have loop: "order_items_loop (lc_items (populate d c)) [] (Num 0) = Inl ?err"
    using assms(3) by (rule loop_fails)
  have od: "order_data (Some (populate d c)) uid body = Inl ?err"
    using ne loop by (simp add: order_data_def)
  have run: "placeOrder e d uid body = (d, Inl ?err)"
    by (simp add: placeOrder_def assms(1) lc od)
  have fails: "line_fails (item, prd)"
    using assms(3) by (auto dest: find_Some_iff [THEN iffD1])
  show ?thesis
    unfolding run using fails by (auto simp: line_fails_def)
qed

theorem placeOrder_rejects_cart_witness:
  "validate_body ex_body = None
   \<and> carts (ex_lamp_db 3 5) 7
       = Some \<lparr>c_items = [\<lparr>ci_product = 1, ci_quantity = 5, ci_price = Num 10\<rparr>],
               c_totalItems = 5, c_totalAmount = Num 20\<rparr>
   \<and> find line_fails (lc_items (populate (ex_lamp_db 3 5)
          \<lparr>c_items = [\<lparr>ci_product = 1, ci_quantity = 5, ci_price = Num 10\<rparr>],
           c_totalItems = 5, c_totalAmount = Num 20\<rparr>))
       = Some (\<lparr>ci_product = 1, ci_quantity = 5, ci_price = Num 10\<rparr>, Some (ex_lamp 3))
   \<and> fst (placeOrder ex_env (ex_lamp_db 3 5) 7 ex_body) = ex_lamp_db 3 5
   \<and> snd (placeOrder ex_env (ex_lamp_db 3 5) 7 ex_body)
       = Inl (AppError (InsufficientStock ''Lamp'' 3) 400 ''StockError'')
   \<and> orders (fst (placeOrder ex_env (ex_lamp_db 3 5) 7 ex_body)) = []
   \<and> map_option p_stock (products (fst (placeOrder ex_env (ex_lamp_db 3 5) 7 ex_body)) 1) = Some 3"
proof -
  let ?c = "\<lparr>c_items = [\<lparr>ci_product = 1, ci_quantity = 5, ci_price = Num 10\<rparr>],
           c_totalItems = 5, c_totalAmount = Num 20\<rparr>"
  have h1: "validate_body ex_body = None"
    by (rule validate_ex_body)
  have h2: "carts (ex_lamp_db 3 5) 7 = Some ?c"
    by (simp add: ex_lamp_db_def)
  have h3: "find line_fails (lc_items (populate (ex_lamp_db 3 5) ?c))
       = Some (\<lparr>ci_product = 1, ci_quantity = 5, ci_price = Num 10\<rparr>, Some (ex_lamp 3))"
    by (simp add: populate_def ex_lamp_db_def line_fails_def ex_lamp_def)
  note r = placeOrder_rejects_cart [OF h1 h2 h3, of ex_env]
  have act: "p_isActive (ex_lamp 3)" "p_name (ex_lamp 3) = ''Lamp''" "p_stock (ex_lamp 3) = 3"
    by (simp_all add: ex_lamp_def)
  from r act have e: "snd (placeOrder ex_env (ex_lamp_db 3 5) 7 ex_body)
       = Inl (AppError (InsufficientStock ''Lamp'' 3) 400 ''StockError'')"
    by auto
  from r have f: "fst (placeOrder ex_env (ex_lamp_db 3 5) 7 ex_body) = ex_lamp_db 3 5"
    by blast
  have s: "orders (ex_lamp_db 3 5) = []"
    "map_option p_stock (products (ex_lamp_db 3 5) 1) = Some 3"
    by (simp_all add: ex_lamp_db_def ex_lamp_def)
  show ?thesis
    using h1 h2 h3 e s unfolding f by simp
qed

section \<open>The data of an order\<close>

text \<open>What the controller has read and built when it has the data of an order.\<close>

lemma order_data_Inr:
  assumes "order_data cart uid body = Inr od"
  shows "\<exists>lc built.
      cart = Some lc \<and> lc_items lc \<noteq> []
    \<and> length built = length (lc_items lc)
    \<and> (\<forall>k < length (lc_items lc). \<exists>p. snd (lc_items lc ! k) = Some p
          \<and> p_isActive p \<and> ci_quantity (fst (lc_items lc ! k)) \<le> p_stock p
          \<and> built ! k = snapshot (fst (lc_items lc ! k)) p)
    \<and> (\<forall>item \<in> set built. oi_subtotal item = line_total item)
    \<and> od_items od = built \<and> od_subtotal od = sum_lines built
    \<and> od_tax od = jmul (od_subtotal od) tax_rate
    \<and> od_shipping od = (if jgt (od_subtotal od) (Num 50) then Num 0 else Num 10)
    \<and> od_totalAmount od = jadd (jadd (od_subtotal od) (od_tax od)) (od_shipping od)
    \<and> od_totalItems od = lc_totalItems lc \<and> od_user od = uid"
proof -
  from assms obtain lc where lc: "cart = Some lc" and ne: "\<not> isEmpty lc"
    by (auto simp: order_data_def split: option.splits if_splits)
  from assms lc ne obtain r where r: "order_items_loop (lc_items lc) [] (Num 0) = Inr r"
    by (auto simp: order_data_def split: sum.splits)
  from loop_succeeds [OF loop_Inr_no_failure [OF r], of "[]" "Num 0"]
  obtain built where b:
    "order_items_loop (lc_items lc) [] (Num 0)
       = Inr (built, foldl (\<lambda>total item. jadd total (oi_subtotal item)) (Num 0) built)"
    "length built = length (lc_items lc)"
    "\<forall>k < length (lc_items lc). \<exists>p. snd (lc_items lc ! k) = Some p \<and> p_isActive p
            \<and> ci_quantity (fst (lc_items lc ! k)) \<le> p_stock p
            \<and> built ! k = snapshot (fst (lc_items lc ! k)) p"
    by auto
  have snaps: "\<forall>item \<in> set built. oi_subtotal item = line_total item"
  proof
    fix item assume "item \<in> set built"
    then obtain k where k: "k < length built" "built ! k = item"
      by (auto simp: in_set_conv_nth)
    with b(2,3) obtain p where "built ! k = snapshot (fst (lc_items lc ! k)) p" by auto
    with k show "oi_subtotal item = line_total item"
      using snapshot_fields(1) by metis
  qed
  have sub: "foldl (\<lambda>total item. jadd total (oi_subtotal item)) (Num 0) built = sum_lines built"
    unfolding sum_lines_def using snaps by (rule subtotal_fold_snapshots)
  define sb where "sb = sum_lines built"
  have od_eq: "od = \<lparr>od_user = uid, od_items = built, od_totalItems = lc_totalItems lc,
       od_subtotal = sb, od_tax = jmul sb tax_rate,
       od_shipping = (if jgt sb (Num 50) then Num 0 else Num 10),
       od_totalAmount = jadd (jadd sb (jmul sb tax_rate))
                          (if jgt sb (Num 50) then Num 0 else Num 10),
       od_paymentMethod = body_paymentMethod body,
       od_shippingAddress = the (body_shippingAddress body),
       od_notes = map_option trim (body_notes body)\<rparr>"
    using assms lc ne b(1) sub by (simp add: order_data_def Let_def sb_def)
  have nonempty: "lc_items lc \<noteq> []"
    using ne by (simp add: isEmpty_def)
  show ?thesis
  proof (intro exI conjI)
    show "cart = Some lc" by (rule lc)
    show "lc_items lc \<noteq> []" by (rule nonempty)
    show "length built = length (lc_items lc)" by (rule b(2))
    show "\<forall>k < length (lc_items lc). \<exists>p. snd (lc_items lc ! k) = Some p
          \<and> p_isActive p \<and> ci_quantity (fst (lc_items lc ! k)) \<le> p_stock p
          \<and> built ! k = snapshot (fst (lc_items lc ! k)) p" by (rule b(3))
    show "\<forall>item \<in> set built. oi_subtotal item = line_total item" by (rule snaps)
    show "od_items od = built" by (simp add: od_eq)
    show "od_subtotal od = sum_lines built" by (simp add: od_eq sb_def)
    show "od_tax od = jmul (od_subtotal od) tax_rate" by (simp add: od_eq)
    show "od_shipping od = (if jgt (od_subtotal od) (Num 50) then Num 0 else Num 10)"
      by (simp add: od_eq)
    show "od_totalAmount od = jadd (jadd (od_subtotal od) (od_tax od)) (od_shipping od)"
      by (simp add: od_eq)
    show "od_totalItems od = lc_totalItems lc" by (simp add: od_eq)
    show "od_user od = uid" by (simp add: od_eq)
  qed
qed





section \<open>Rounding\<close>

lemma dime_literals:
  "round_double (1 / 10) = dime" "round_double (2 / 10) = two_dimes"
  by (simp_all add: dime_def two_dimes_def eval_num)

lemma arith_dimes:
  "jmul dime (num_of_int 1) = dime"
  "jmul two_dimes (num_of_int 1) = two_dimes"
  "jadd (Num 0) dime = dime"
  "jadd dime two_dimes = Num (1351079888211149 / 4503599627370496)"
  by (simp_all add: dime_def two_dimes_def eval_num)

lemma arith_dime_totals:
  "jmul (Num (1351079888211149 / 4503599627370496)) tax_rate
     = Num (6917529027641083 / 288230376151711744)"
  "jgt (Num (1351079888211149 / 4503599627370496)) (Num 50) = False"
  "jadd (jadd (Num (1351079888211149 / 4503599627370496))
              (Num (6917529027641083 / 288230376151711744))) (Num 10)
     = Num (5811895319121625 / 562949953421312)"
  by (simp_all add: eval_num)

lemma order_data_ex_dime:
  "order_data (cart_findByUser ex_dime_db 7) 7 ex_body = Inr ex_dime_data"
proof -
  let ?lc = "\<lparr>lc_items =
                [(\<lparr>ci_product = 1, ci_quantity = 1, ci_price = dime\<rparr>,
                  Some \<lparr>p_name = ''Gum'', p_price = dime, p_stock = 9, p_isActive = True\<rparr>),
                 (\<lparr>ci_product = 2, ci_quantity = 1, ci_price = two_dimes\<rparr>,
                  Some \<lparr>p_name = ''Mint'', p_price = two_dimes, p_stock = 9, p_isActive = True\<rparr>)],
              lc_totalItems = 2, lc_totalAmount = Num (1351079888211149 / 4503599627370496)\<rparr>"
  have lc: "cart_findByUser ex_dime_db 7 = Some ?lc"
    by (simp add: cart_findByUser_def populate_def ex_dime_db_def)
  have loop: "order_items_loop (lc_items ?lc) [] (Num 0)
      = Inr (od_items ex_dime_data, Num (1351079888211149 / 4503599627370496))"
    by (simp add: arith_dimes ex_dime_data_def del: jadd.simps(1) jmul.simps(1))
  show ?thesis
    unfolding lc order_data_def option.case loop
    by (simp add: isEmpty_def ex_dime_data_def ex_body_def Let_def arith_dime_totals
          del: jadd.simps(1) jmul.simps(1) jgt.simps(1))
qed

lemma calculateTotals_ex_dime: "calculateTotals ex_dime_order = ex_dime_order"
  by (simp add: calculateTotals_def Let_def ex_dime_order_def arith_dimes arith_dime_totals
        del: jadd.simps(1) jmul.simps(1))

text \<open>
  C7, as stated, fails: money is held in binary floating point and the sums are rounded.
  The price \<^verbatim>\<open>0.1\<close> is not the rational 1/10. For the cart with one item at 0.1 and one at
  0.2 the subtotal that the controller computes is not the exact sum of price times
  quantity, and its total is not the exact sum of its subtotal, tax and shipping. The
  order model recomputes the same rounded values for a stored order with these lines.
\<close>

theorem exact_money_counterexample:
  "round_double (1 / 10) = dime \<and> exact_value dime \<noteq> 1 / 10
   \<and> order_data (cart_findByUser ex_dime_db 7) 7 ex_body = Inr ex_dime_data
   \<and> exact_value (od_subtotal ex_dime_data) \<noteq> exact_sum (od_items ex_dime_data)
   \<and> exact_value (od_totalAmount ex_dime_data)
       \<noteq> exact_value (od_subtotal ex_dime_data) + exact_value (od_tax ex_dime_data)
           + exact_value (od_shipping ex_dime_data)
   \<and> exact_value (subtotal (calculateTotals ex_dime_order))
       \<noteq> exact_sum (o_items (calculateTotals ex_dime_order))
   \<and> exact_value (o_totalAmount (calculateTotals ex_dime_order))
       \<noteq> exact_value (subtotal (calculateTotals ex_dime_order))
           + exact_value (tax (calculateTotals ex_dime_order))
           + exact_value (shipping (calculateTotals ex_dime_order))"
proof -
  have "exact_value dime \<noteq> 1 / 10"
    by (simp add: exact_value_def dime_def)
  moreover have "exact_value (od_subtotal ex_dime_data) \<noteq> exact_sum (od_items ex_dime_data)"
    by (simp add: exact_value_def exact_sum_def ex_dime_data_def dime_def two_dimes_def)
  moreover have "exact_value (od_totalAmount ex_dime_data)
       \<noteq> exact_value (od_subtotal ex_dime_data) + exact_value (od_tax ex_dime_data)
           + exact_value (od_shipping ex_dime_data)"
    by (simp add: exact_value_def ex_dime_data_def)
  moreover have "exact_value (subtotal (calculateTotals ex_dime_order))
       \<noteq> exact_sum (o_items (calculateTotals ex_dime_order))"
    unfolding calculateTotals_ex_dime
    by (simp add: exact_value_def exact_sum_def ex_dime_order_def dime_def two_dimes_def)
  moreover have "exact_value (o_totalAmount (calculateTotals ex_dime_order))
       \<noteq> exact_value (subtotal (calculateTotals ex_dime_order))
           + exact_value (tax (calculateTotals ex_dime_order))
           + exact_value (shipping (calculateTotals ex_dime_order))"
    unfolding calculateTotals_ex_dime
    by (simp add: exact_value_def ex_dime_order_def)
  ultimately show ?thesis
    using dime_literals(1) order_data_ex_dime by simp
qed

lemma calculateTotals_fields:
  "o_items (calculateTotals ord)
     = map (\<lambda>item. item\<lparr>oi_subtotal := line_total item\<rparr>) (o_items ord)"
  "subtotal (calculateTotals ord)
     = foldl (\<lambda>total item. jadd total (oi_subtotal item)) (Num 0) (o_items ord)"
  "o_totalAmount (calculateTotals ord)
     = jadd (jadd (subtotal (calculateTotals ord)) (tax ord)) (shipping ord)"
  "tax (calculateTotals ord) = tax ord" "shipping (calculateTotals ord) = shipping ord"
  "o_totalItems (calculateTotals ord)
     = foldl (\<lambda>total item. total + oi_quantity item) 0 (o_items ord)"
  by (simp_all add: calculateTotals_def Let_def line_total_def)

lemma refreshed_lines:
  "\<forall>item \<in> set (map (\<lambda>item. item\<lparr>oi_subtotal := line_total item\<rparr>) its).
     oi_subtotal item = line_total item"
  by (simp add: line_total_def)

lemma sum_lines_refreshed:
  "sum_lines (map (\<lambda>item. item\<lparr>oi_subtotal := line_total item\<rparr>) its) = sum_lines its"
proof -
  have "\<And>s. foldl (\<lambda>total item. jadd total (line_total item)) s
           (map (\<lambda>item. item\<lparr>oi_subtotal := line_total item\<rparr>) its)
       = foldl (\<lambda>total item. jadd total (line_total item)) s its"
    by (induction its) (simp_all add: line_total_def)
  then show ?thesis by (simp add: sum_lines_def)
qed

lemma calculateTotals_fixpoint:
  assumes "\<forall>item \<in> set (o_items ord). oi_subtotal item = line_total item"
  shows "calculateTotals (calculateTotals ord) = calculateTotals ord"
proof -
  have keep: "map (\<lambda>item. item\<lparr>oi_subtotal := line_total item\<rparr>) (o_items ord) = o_items ord"
    using assms by (induction "o_items ord") (simp_all add: map_idI)
  have items: "o_items (calculateTotals ord) = o_items ord"
    by (simp add: calculateTotals_fields keep)
  show ?thesis
    by (simp add: calculateTotals_def [of "calculateTotals ord"] Let_def items)
       (simp add: calculateTotals_def Let_def keep [unfolded line_total_def])
qed

lemma subtotal_fold_refreshed:
  "foldl (\<lambda>total item. jadd total (oi_subtotal item)) (Num 0)
     (map (\<lambda>item. item\<lparr>oi_subtotal := line_total item\<rparr>) its) = sum_lines its"
proof -
  have "foldl (\<lambda>total item. jadd total (oi_subtotal item)) (Num 0)
          (map (\<lambda>item. item\<lparr>oi_subtotal := line_total item\<rparr>) its)
        = foldl (\<lambda>total item. jadd total (line_total item)) (Num 0)
          (map (\<lambda>item. item\<lparr>oi_subtotal := line_total item\<rparr>) its)"
    using refreshed_lines by (rule subtotal_fold_snapshots)
  then show ?thesis
    using sum_lines_refreshed [of its] by (simp add: sum_lines_def)
qed

text \<open>
  C7, amended. In \<^verbatim>\<open>Number\<close> arithmetic, where every product and every sum is rounded:
  the data of an order that the controller builds has at least one line, each line
  subtotal is price times quantity, the subtotal is the sum of these from left to right,
  the tax is the subtotal times \<^verbatim>\<open>0.08\<close> and the total is subtotal plus tax plus shipping.
  The recomputation of the order model leaves each line subtotal at price times quantity
  and the total at subtotal plus tax plus shipping; from the second recomputation on
  the subtotal is the sum of the line subtotals and the order no longer changes; when
  the line subtotals were price times quantity already, this holds from the first one.
\<close>

theorem money_totals_rounded:
  "(order_data cart uid body = Inr od \<longrightarrow>
      od_items od \<noteq> []
      \<and> (\<forall>item \<in> set (od_items od). oi_subtotal item = line_total item)
      \<and> od_subtotal od = sum_lines (od_items od)
      \<and> od_tax od = jmul (od_subtotal od) tax_rate
      \<and> od_totalAmount od = jadd (jadd (od_subtotal od) (od_tax od)) (od_shipping od))
   \<and> (\<forall>item \<in> set (o_items (calculateTotals ord)). oi_subtotal item = line_total item)
   \<and> o_totalAmount (calculateTotals ord)
       = jadd (jadd (subtotal (calculateTotals ord)) (tax (calculateTotals ord)))
              (shipping (calculateTotals ord))
   \<and> subtotal (calculateTotals (calculateTotals ord))
       = sum_lines (o_items (calculateTotals (calculateTotals ord)))
   \<and> calculateTotals (calculateTotals (calculateTotals ord)) = calculateTotals (calculateTotals ord)
   \<and> ((\<forall>item \<in> set (o_items ord). oi_subtotal item = line_total item) \<longrightarrow>
        subtotal (calculateTotals ord) = sum_lines (o_items (calculateTotals ord))
        \<and> calculateTotals (calculateTotals ord) = calculateTotals ord)"
proof -
  have data: "od_items od \<noteq> []
      \<and> (\<forall>item \<in> set (od_items od). oi_subtotal item = line_total item)
      \<and> od_subtotal od = sum_lines (od_items od)
      \<and> od_tax od = jmul (od_subtotal od) tax_rate
      \<and> od_totalAmount od = jadd (jadd (od_subtotal od) (od_tax od)) (od_shipping od)"
    if built: "order_data cart uid body = Inr od"
  proof -
    from order_data_Inr [OF built] obtain lc items where
      "cart = Some lc" "lc_items lc \<noteq> []" "length items = length (lc_items lc)"
      "\<forall>item \<in> set items. oi_subtotal item = line_total item"
      "od_items od = items" "od_subtotal od = sum_lines items"
      "od_tax od = jmul (od_subtotal od) tax_rate"
      "od_totalAmount od = jadd (jadd (od_subtotal od) (od_tax od)) (od_shipping od)"
      by blast
    then show ?thesis by auto
  qed
  have lines: "\<forall>item \<in> set (o_items (calculateTotals ord')). oi_subtotal item = line_total item"
    for ord'
    unfolding calculateTotals_fields(1) by (rule refreshed_lines)
  have total: "o_totalAmount (calculateTotals ord)
       = jadd (jadd (subtotal (calculateTotals ord)) (tax (calculateTotals ord)))
              (shipping (calculateTotals ord))"
    by (simp add: calculateTotals_fields)
  have sub2: "subtotal (calculateTotals (calculateTotals ord))
       = sum_lines (o_items (calculateTotals (calculateTotals ord)))"
    unfolding calculateTotals_fields(1,2) subtotal_fold_refreshed sum_lines_refreshed
    by (rule refl)
  have stable: "calculateTotals (calculateTotals (calculateTotals ord))
       = calculateTotals (calculateTotals ord)"
    using lines [of ord] by (rule calculateTotals_fixpoint)
  have first: "subtotal (calculateTotals ord) = sum_lines (o_items (calculateTotals ord))
        \<and> calculateTotals (calculateTotals ord) = calculateTotals ord"
    if ok: "\<forall>item \<in> set (o_items ord). oi_subtotal item = line_total item"
  proof -
    have "subtotal (calculateTotals ord) = sum_lines (o_items ord)"
      unfolding calculateTotals_fields(2) sum_lines_def using ok by (rule subtotal_fold_snapshots)
    then have "subtotal (calculateTotals ord) = sum_lines (o_items (calculateTotals ord))"
      by (simp add: calculateTotals_fields(1) sum_lines_refreshed)
    then show ?thesis
      using calculateTotals_fixpoint [OF ok] by simp
  qed
  show ?thesis
    using data lines [of ord] total sub2 stable first by blast
qed

theorem money_totals_rounded_witness:
  "order_data (cart_findByUser ex_dime_db 7) 7 ex_body = Inr ex_dime_data
   \<and> map oi_subtotal (od_items ex_dime_data) = map line_total (od_items ex_dime_data)
   \<and> od_subtotal ex_dime_data = sum_lines (od_items ex_dime_data)
   \<and> od_totalAmount ex_dime_data
       = jadd (jadd (od_subtotal ex_dime_data) (od_tax ex_dime_data)) (od_shipping ex_dime_data)
   \<and> map oi_subtotal (o_items ex_dime_order) = map line_total (o_items ex_dime_order)
   \<and> calculateTotals (calculateTotals ex_dime_order) = calculateTotals ex_dime_order
   \<and> subtotal (calculateTotals ex_dime_order) = Num (1351079888211149 / 4503599627370496)
   \<and> o_totalAmount (calculateTotals ex_dime_order) = Num (5811895319121625 / 562949953421312)"
proof -
  note r = money_totals_rounded [of "cart_findByUser ex_dime_db 7" 7 ex_body ex_dime_data
      ex_dime_order]
  have stored: "\<forall>item \<in> set (o_items ex_dime_order). oi_subtotal item = line_total item"
    by (simp add: ex_dime_order_def line_total_def arith_dimes del: jmul.simps(1))
  have m1: "map oi_subtotal (o_items ex_dime_order) = map line_total (o_items ex_dime_order)"
    using stored by simp
  from r order_data_ex_dime
  have d: "\<forall>item \<in> set (od_items ex_dime_data). oi_subtotal item = line_total item"
    "od_subtotal ex_dime_data = sum_lines (od_items ex_dime_data)"
    "od_totalAmount ex_dime_data
       = jadd (jadd (od_subtotal ex_dime_data) (od_tax ex_dime_data)) (od_shipping ex_dime_data)"
    by blast+
  have m2: "map oi_subtotal (od_items ex_dime_data) = map line_total (od_items ex_dime_data)"
    using d(1) by simp
  from r stored have s: "calculateTotals (calculateTotals ex_dime_order) = calculateTotals ex_dime_order"
    by blast
  have v: "subtotal (calculateTotals ex_dime_order) = Num (1351079888211149 / 4503599627370496)"
    "o_totalAmount (calculateTotals ex_dime_order) = Num (5811895319121625 / 562949953421312)"
    unfolding calculateTotals_ex_dime by (simp_all add: ex_dime_order_def)
  show ?thesis
    using order_data_ex_dime m2 d(2,3) m1 s v by simp
qed

section \<open>No placement creates an order\<close>


lemma place_step_without_order:
  assumes "without_order r"
  shows "fst (place_step e d r) = d \<and> without_order (snd (place_step e d r))"
  using assms
  by (cases r rule: without_order.cases)
     (simp_all add: order_create_def split: option.splits sum.splits)

lemma run_schedule_without_order:
  assumes "list_all without_order rs"
  shows "fst (run_schedule e (d, rs) sched) = d
       \<and> list_all without_order (snd (run_schedule e (d, rs) sched))"
  using assms
proof (induction sched arbitrary: rs)
  case Nil
  then show ?case by simp
next
  case (Cons i sched)
  show ?case
  proof (cases "i < length rs")
    case False
    then show ?thesis using Cons by simp
  next
    case True
    with Cons.prems have r: "without_order (rs ! i)"
      by (simp add: list_all_length)
    note s = place_step_without_order [OF r, of e d]
    have "list_all without_order (rs[i := snd (place_step e d (rs ! i))])"
      using Cons.prems s True by (simp add: list_all_length nth_list_update)
    from Cons.IH [OF this] show ?thesis
      using True s by (simp add: split_beta)
  qed
qed

lemma without_order_not_succeeded: "without_order r \<Longrightarrow> \<not> succeeded r"
  by (cases r rule: without_order.cases) simp_all

text \<open>
  C8. Two requests in flight, each placing an order for quantity 1 of a product with stock
  1: under every schedule the store stays as it was, so the stock stays 1 and there is no
  order, and neither request succeeds. When both have run to their end, one after the
  other or in turns, each has ended with the validation error of the creation of the
  order, not with a \<^verbatim>\<open>StockError\<close>.
\<close>

theorem concurrent_placements_both_rejected:
  "fst (run_schedule ex_env (ex_race_db 1 1, [PStart 7 ex_body, PStart 8 ex_body]) sched)
     = ex_race_db 1 1
   \<and> filter succeeded
        (snd (run_schedule ex_env (ex_race_db 1 1, [PStart 7 ex_body, PStart 8 ex_body]) sched))
     = []
   \<and> map_option p_stock (products (ex_race_db 1 1) 1) = Some 1
   \<and> orders (ex_race_db 1 1) = []
   \<and> run_schedule ex_env (ex_race_db 1 1, [PStart 7 ex_body, PStart 8 ex_body]) [0, 0, 1, 1]
     = (ex_race_db 1 1,
        [PDone (Inl (AppError OrderValidationFailed 400 ''ValidationError'')),
         PDone (Inl (AppError OrderValidationFailed 400 ''ValidationError''))])
   \<and> run_schedule ex_env (ex_race_db 1 1, [PStart 7 ex_body, PStart 8 ex_body]) [0, 1, 0, 1]
     = (ex_race_db 1 1,
        [PDone (Inl (AppError OrderValidationFailed 400 ''ValidationError'')),
         PDone (Inl (AppError OrderValidationFailed 400 ''ValidationError''))])"
proof -
  let ?d = "ex_race_db 1 1"
  let ?lc = "\<lambda>u::nat. Some \<lparr>lc_items = [(\<lparr>ci_product = 1, ci_quantity = 1, ci_price = Num 10\<rparr>,
                                        Some (ex_lamp 1))],
                          lc_totalItems = 1, lc_totalAmount = Num 10\<rparr>"
  have start: "list_all without_order [PStart 7 ex_body, PStart 8 ex_body]" by simp
  note inv = run_schedule_without_order [OF start, of ex_env ?d sched]
  have none: "filter succeeded
        (snd (run_schedule ex_env (?d, [PStart 7 ex_body, PStart 8 ex_body]) sched)) = []"
    using inv without_order_not_succeeded by (auto simp: filter_empty_conv list_all_iff)
  have stock: "map_option p_stock (products ?d 1) = Some 1" "orders ?d = []"
    by (simp_all add: ex_race_db_def ex_lamp_def)
  have read: "cart_findByUser ?d 7 = ?lc 7" "cart_findByUser ?d 8 = ?lc 8"
    by (simp_all add: cart_findByUser_def populate_def ex_race_db_def)
  have arith: "jmul (Num 10) (num_of_int 1) = Num 10" "jadd (Num 0) (Num 10) = Num 10"
    by (simp_all add: eval_num)
  have built: "\<exists>od. order_data (?lc u) u ex_body = Inr od" for u
    by (simp add: order_data_def isEmpty_def ex_lamp_def Let_def arith
          del: jadd.simps(1) jmul.simps(1))
  have s1: "place_step ex_env ?d (PStart u ex_body) = (?d, PLoaded u ex_body (cart_findByUser ?d u))"
    for u by (simp add: validate_ex_body)
  have s2: "place_step ex_env ?d (PLoaded 7 ex_body (cart_findByUser ?d 7))
      = (?d, PDone (Inl (AppError OrderValidationFailed 400 ''ValidationError'')))"
    "place_step ex_env ?d (PLoaded 8 ex_body (cart_findByUser ?d 8))
      = (?d, PDone (Inl (AppError OrderValidationFailed 400 ''ValidationError'')))"
    unfolding read using built [of 7] built [of 8] by (auto simp: order_create_def)
  have seq: "run_schedule ex_env (?d, [PStart 7 ex_body, PStart 8 ex_body]) [0, 0, 1, 1]
     = (?d, [PDone (Inl (AppError OrderValidationFailed 400 ''ValidationError'')),
             PDone (Inl (AppError OrderValidationFailed 400 ''ValidationError''))])"
    by (simp add: s1 s2 del: place_step.simps)
  have turns: "run_schedule ex_env (?d, [PStart 7 ex_body, PStart 8 ex_body]) [0, 1, 0, 1]
     = (?d, [PDone (Inl (AppError OrderValidationFailed 400 ''ValidationError'')),
             PDone (Inl (AppError OrderValidationFailed 400 ''ValidationError''))])"
    by (simp add: s1 s2 del: place_step.simps)
  show ?thesis
    using inv none stock seq turns by simp
qed

section \<open>Stock under sequences of requests\<close>
























section \<open>Cancelling an order\<close>




end
